theory Spec2Isabelle
  imports Main "HOL-Library.Word"
begin

unbundle bit_operations_syntax

section \<open>The input stream and Python's exceptions\<close>

text \<open>
  The program reads one binary file front to back through a file object \<open>fp\<close>. The
  model of \<open>fp\<close> is the list of the bytes not yet read. \<open>fp.read(n)\<close> does not raise at the
  end of the file: it returns fewer than \<open>n\<close> bytes, possibly none. It raises
  \<open>OverflowError\<close> for a count above 2 ^ 63 - 1, which does not fit the index type of the
  interpreter. The counts the program passes are never negative. Running out of memory
  is not modelled.

  An exception that nothing catches ends the run, so a reader returns either \<open>Inl\<close> of the
  exception or \<open>Inr\<close> of its value and the rest of the stream. Python's integers are
  unbounded: they are \<open>int\<close>. The logging calls (\<open>info\<close>, \<open>warn\<close>, \<open>error\<close>) only print and
  are left out.
\<close>

type_synonym byte = "8 word"
type_synonym stream = "byte list"

datatype error =
    StructError
  | IndexError
  | TypeError
  | UnicodeDecodeError
  | OverflowError
  | SystemExit int

type_synonym 'a reader = "stream \<Rightarrow> error + ('a \<times> stream)"

definition return :: "'a \<Rightarrow> 'a reader" where
  "return x fp = Inr (x, fp)"

definition raise :: "error \<Rightarrow> 'a reader" where
  "raise e fp = Inl e"

definition and_then :: "'a reader \<Rightarrow> ('a \<Rightarrow> 'b reader) \<Rightarrow> 'b reader" where
  "and_then m f fp = (case m fp of Inl e \<Rightarrow> Inl e | Inr (x, fp') \<Rightarrow> f x fp')"

definition lift :: "error + 'a \<Rightarrow> 'a reader" where
  "lift r fp = (case r of Inl e \<Rightarrow> Inl e | Inr x \<Rightarrow> Inr (x, fp))"

definition fp_read :: "nat \<Rightarrow> (byte list) reader" where
  "fp_read n fp = (if 2 ^ 63 \<le> n then Inl OverflowError else Inr (take n fp, drop n fp))"

text \<open>\<open>for _ in range(n): res.append(reader_fn())\<close>, the loop of every counted sequence.\<close>

fun read_n :: "nat \<Rightarrow> 'a reader \<Rightarrow> ('a list) reader" where
  "read_n 0 reader_fn fp = Inr ([], fp)"
| "read_n (Suc n) reader_fn fp =
     (case reader_fn fp of
        Inl e \<Rightarrow> Inl e
      | Inr (x, fp') \<Rightarrow>
          (case read_n n reader_fn fp' of
             Inl e \<Rightarrow> Inl e
           | Inr (xs, fp'') \<Rightarrow> Inr (x # xs, fp'')))"

text \<open>
  Python's \<open>xs[i]\<close> on a list of length \<open>n\<close>: the indices \<open>0 .. n-1\<close> count from the
  front, the indices \<open>-n .. -1\<close> from the back, and every other index raises.
\<close>

definition py_index :: "'a list \<Rightarrow> int \<Rightarrow> error + 'a" where
  "py_index xs i =
     (if 0 \<le> i \<and> i < int (length xs) then Inr (xs ! nat i)
      else if i < 0 \<and> - int (length xs) \<le> i then Inr (xs ! nat (int (length xs) + i))
      else Inl IndexError)"

section \<open>struct.unpack and the fixed-width reads\<close>

text \<open>
  \<open>struct.unpack(fmt, buffer)\<close> wants a bytes-like object of exactly the format's size:
  anything else that is bytes raises \<open>struct.error\<close>, and an object that is not bytes-like
  (a file object) raises \<open>TypeError\<close>. The formats have no byte-order prefix, so the order
  is the host's; the model is a little-endian host, the order the container format uses.
  A float is kept as its IEEE-754 bit pattern. \<open>struct.unpack('f')\<close> widens the four
  bytes to a Python float, a double, and the widening gives a signalling NaN back as the
  quiet NaN of the same payload: \<open>quiet_nan32\<close> sets the quiet bit of a NaN, so that the
  two bit patterns are one value. The format \<open>'d'\<close> copies its eight bytes.
\<close>

datatype fmt = Fmt_B | Fmt_b | Fmt_h | Fmt_H | Fmt_i | Fmt_I | Fmt_q | Fmt_Q | Fmt_f | Fmt_d | Fmt_e

fun calcsize :: "fmt \<Rightarrow> nat" where
  "calcsize Fmt_B = 1"
| "calcsize Fmt_b = 1"
| "calcsize Fmt_h = 2"
| "calcsize Fmt_H = 2"
| "calcsize Fmt_i = 4"
| "calcsize Fmt_I = 4"
| "calcsize Fmt_q = 8"
| "calcsize Fmt_Q = 8"
| "calcsize Fmt_f = 4"
| "calcsize Fmt_d = 8"
| "calcsize Fmt_e = 2"

datatype buffer_arg = Bytes "byte list" | FileObject stream

fun struct_unpack :: "fmt \<Rightarrow> buffer_arg \<Rightarrow> error + byte list" where
  "struct_unpack f (FileObject fp) = Inl TypeError"
| "struct_unpack f (Bytes bs) = (if length bs = calcsize f then Inr bs else Inl StructError)"

fun unsigned_le :: "byte list \<Rightarrow> int" where
  "unsigned_le [] = 0"
| "unsigned_le (b # bs) = uint b + 256 * unsigned_le bs"

definition signed_le :: "byte list \<Rightarrow> int" where
  "signed_le bs =
     (let u = unsigned_le bs
      in if 2 ^ (8 * length bs - 1) \<le> u then u - 2 ^ (8 * length bs) else u)"

datatype pyfloat = Float32 "32 word" | Float64 "64 word" | Float16 "16 word"

definition read_one :: "fmt \<Rightarrow> nat \<Rightarrow> (byte list) reader" where
  "read_one f sz = and_then (fp_read sz) (\<lambda>bs. lift (struct_unpack f (Bytes bs)))"

definition read_byte :: "int reader" where
  "read_byte = and_then (read_one Fmt_B 1) (\<lambda>bs. return (unsigned_le bs))"

definition read_sbyte :: "int reader" where
  "read_sbyte = and_then (read_one Fmt_b 1) (\<lambda>bs. return (signed_le bs))"

definition read_int16 :: "int reader" where
  "read_int16 = and_then (read_one Fmt_h 2) (\<lambda>bs. return (signed_le bs))"

definition read_uint16 :: "int reader" where
  "read_uint16 = and_then (read_one Fmt_H 2) (\<lambda>bs. return (unsigned_le bs))"

definition read_int32 :: "int reader" where
  "read_int32 = and_then (read_one Fmt_i 4) (\<lambda>bs. return (signed_le bs))"

definition read_uint32 :: "int reader" where
  "read_uint32 = and_then (read_one Fmt_I 4) (\<lambda>bs. return (unsigned_le bs))"

definition read_int64 :: "int reader" where
  "read_int64 = and_then (read_one Fmt_q 8) (\<lambda>bs. return (signed_le bs))"

definition read_uint64 :: "int reader" where
  "read_uint64 = and_then (read_one Fmt_Q 8) (\<lambda>bs. return (unsigned_le bs))"

definition quiet_nan32 :: "32 word \<Rightarrow> 32 word" where
  "quiet_nan32 w =
     (if w AND 0x7F800000 = 0x7F800000 \<and> w AND 0x007FFFFF \<noteq> 0 then w OR 0x00400000 else w)"

definition read_single :: "pyfloat reader" where
  "read_single =
     and_then (read_one Fmt_f 4) (\<lambda>bs.
       return (Float32 (quiet_nan32 (word_of_int (unsigned_le bs)))))"

definition read_double :: "pyfloat reader" where
  "read_double = and_then (read_one Fmt_d 8) (\<lambda>bs. return (Float64 (word_of_int (unsigned_le bs))))"

definition read_boolean :: "bool reader" where
  "read_boolean = and_then read_byte (\<lambda>b. return (b \<noteq> 0))"

section \<open>LEB128 and strings\<close>

text \<open>
  \<open>read_leb128\<close>: the loop reads one byte per round; \<open>fp.read(1)[0]\<close> raises \<open>IndexError\<close>
  at the end of the file. The counter \<open>i\<close> is set to 0 before the loop and the loop never
  changes it, so the model carries it unchanged.
\<close>

fun leb128_loop :: "int \<Rightarrow> nat \<Rightarrow> int reader" where
  "leb128_loop result i [] = Inl IndexError"
| "leb128_loop result i (b # fp) =
     (let byte = uint b;
          result' = result OR push_bit (7 * i) (byte AND 0x7f)
      in if byte AND 0x80 = 0 then Inr (result', fp) else leb128_loop result' i fp)"

definition read_leb128 :: "int reader" where
  "read_leb128 = leb128_loop 0 0"

text \<open>
  A Python \<open>str\<close> is a sequence of code points. \<open>bytes.decode('utf-8')\<close> is the strict
  decoder: shortest form only, no surrogates, nothing above U+10FFFF, and a sequence cut
  short is an error.
\<close>

type_synonym pystr = "nat list"

definition in_range :: "nat \<Rightarrow> nat \<Rightarrow> byte \<Rightarrow> bool" where
  "in_range lo hi b = (lo \<le> unat b \<and> unat b \<le> hi)"

definition is_cont :: "byte \<Rightarrow> bool" where
  "is_cont b = in_range 0x80 0xBF b"

definition cont :: "byte \<Rightarrow> nat" where
  "cont b = unat b mod 64"

text \<open>The second byte of a three-byte and of a four-byte sequence, by its lead byte.\<close>

definition second3 :: "byte \<Rightarrow> byte \<Rightarrow> bool" where
  "second3 b0 b1 =
     in_range (if unat b0 = 0xE0 then 0xA0 else 0x80) (if unat b0 = 0xED then 0x9F else 0xBF) b1"

definition second4 :: "byte \<Rightarrow> byte \<Rightarrow> bool" where
  "second4 b0 b1 =
     in_range (if unat b0 = 0xF0 then 0x90 else 0x80) (if unat b0 = 0xF4 then 0x8F else 0xBF) b1"

definition cons_cp :: "nat \<Rightarrow> error + pystr \<Rightarrow> error + pystr" where
  "cons_cp c r = (case r of Inl e \<Rightarrow> Inl e | Inr cs \<Rightarrow> Inr (c # cs))"

fun utf8_decode :: "byte list \<Rightarrow> error + pystr" where
  "utf8_decode [] = Inr []"
| "utf8_decode [b0] =
     (if unat b0 < 0x80 then Inr [unat b0] else Inl UnicodeDecodeError)"
| "utf8_decode [b0, b1] =
     (if unat b0 < 0x80 then cons_cp (unat b0) (utf8_decode [b1])
      else if in_range 0xC2 0xDF b0 \<and> is_cont b1
        then Inr [(unat b0 mod 32) * 64 + cont b1]
      else Inl UnicodeDecodeError)"
| "utf8_decode [b0, b1, b2] =
     (if unat b0 < 0x80 then cons_cp (unat b0) (utf8_decode [b1, b2])
      else if in_range 0xC2 0xDF b0 \<and> is_cont b1
        then cons_cp ((unat b0 mod 32) * 64 + cont b1) (utf8_decode [b2])
      else if in_range 0xE0 0xEF b0 \<and> second3 b0 b1 \<and> is_cont b2
        then Inr [(unat b0 mod 16) * 4096 + cont b1 * 64 + cont b2]
      else Inl UnicodeDecodeError)"
| "utf8_decode (b0 # b1 # b2 # b3 # bs) =
     (if unat b0 < 0x80 then cons_cp (unat b0) (utf8_decode (b1 # b2 # b3 # bs))
      else if in_range 0xC2 0xDF b0 \<and> is_cont b1
        then cons_cp ((unat b0 mod 32) * 64 + cont b1) (utf8_decode (b2 # b3 # bs))
      else if in_range 0xE0 0xEF b0 \<and> second3 b0 b1 \<and> is_cont b2
        then cons_cp ((unat b0 mod 16) * 4096 + cont b1 * 64 + cont b2) (utf8_decode (b3 # bs))
      else if in_range 0xF0 0xF4 b0 \<and> second4 b0 b1 \<and> is_cont b2 \<and> is_cont b3
        then cons_cp ((unat b0 mod 8) * 262144 + cont b1 * 4096 + cont b2 * 64 + cont b3)
               (utf8_decode bs)
      else Inl UnicodeDecodeError)"

definition read_string :: "pystr reader" where
  "read_string =
     and_then read_leb128 (\<lambda>n. and_then (fp_read (nat n)) (\<lambda>bs. lift (utf8_decode bs)))"

section \<open>The generic adapters\<close>

definition read_nullable :: "'a reader \<Rightarrow> ('a option) reader" where
  "read_nullable reader_fn =
     and_then read_boolean (\<lambda>is_present.
       if is_present then and_then reader_fn (\<lambda>x. return (Some x)) else return None)"

definition read_list :: "'a reader \<Rightarrow> ('a list) reader" where
  "read_list reader_fn = and_then read_uint32 (\<lambda>length. read_n (nat length) reader_fn)"

definition read_array :: "'a reader \<Rightarrow> ('a list) reader" where
  "read_array = read_list"

text \<open>
  A Python \<open>dict\<close> keeps its keys in insertion order: it is an association list, and
  \<open>d[k] = v\<close> replaces the value of a key that is there or adds the pair at the end.

  \<open>read_dictionary\<close> is handed the two readers and stores them: the body of its loop is
  \<open>d[key_reader] = value_reader\<close>, with no call. So the keys and values of the result are
  of the type of the readers themselves.
\<close>

fun dict_set :: "'k \<Rightarrow> 'v \<Rightarrow> ('k \<times> 'v) list \<Rightarrow> ('k \<times> 'v) list" where
  "dict_set k v [] = [(k, v)]"
| "dict_set k v (p # ps) = (if fst p = k then (k, v) # ps else p # dict_set k v ps)"

fun store_n :: "nat \<Rightarrow> 'k \<Rightarrow> 'v \<Rightarrow> ('k \<times> 'v) list \<Rightarrow> ('k \<times> 'v) list" where
  "store_n 0 k v d = d"
| "store_n (Suc n) k v d = store_n n k v (dict_set k v d)"

definition read_dictionary :: "'k \<Rightarrow> 'v \<Rightarrow> (('k \<times> 'v) list) reader" where
  "read_dictionary key_reader value_reader =
     and_then read_uint32 (\<lambda>count. return (store_n (nat count) key_reader value_reader []))"

section \<open>Time values\<close>

record datetime =
  dt_kind :: int
  dt_ticks :: int

definition read_datetime :: "datetime reader" where
  "read_datetime =
     and_then read_int64 (\<lambda>value.
       let kind = drop_bit 62 value;
           ticks = value AND NOT (push_bit 62 3)
       in return \<lparr>dt_kind = kind, dt_ticks = ticks\<rparr>)"

section \<open>Texels\<close>

definition SURFACE_FORMATS :: "string list" where
  "SURFACE_FORMATS =
     [''Color'', ''Bgr565'', ''Bgra5551'', ''Bgra4444'', ''Dxt1'', ''Dxt3'', ''Dxt5'',
      ''NormalizedByte2'', ''NormalizedByte4'', ''Rgba1010102'', ''Rg32'', ''Rgba64'',
      ''Alpha8'', ''Single'', ''Vector2'', ''Vector4'', ''HalfSingle'', ''HalfVector2'',
      ''HalfVector4'', ''HdrBlendable'']"

datatype channel = IntCh int | FloatCh pyfloat

type_synonym texel = "channel \<times> channel \<times> channel \<times> channel"

text \<open>\<open>tuple(f() for _ in range(4))\<close>\<close>

definition tuple4 :: "'a reader \<Rightarrow> ('a \<times> 'a \<times> 'a \<times> 'a) reader" where
  "tuple4 f =
     and_then f (\<lambda>a. and_then f (\<lambda>b. and_then f (\<lambda>c. and_then f (\<lambda>d. return (a, b, c, d)))))"

text \<open>
  \<open>struct.unpack('e', self.fp)[0]\<close>: the half-float branches hand \<open>struct.unpack\<close> the file
  object, not bytes read from it. Nothing is read.
\<close>

definition unpack_e_fp :: "pyfloat reader" where
  "unpack_e_fp fp =
     (case struct_unpack Fmt_e (FileObject fp) of
        Inl e \<Rightarrow> Inl e
      | Inr bs \<Rightarrow> Inr (Float16 (word_of_int (unsigned_le bs)), fp))"

text \<open>
  \<open>_col_as_rgba\<close>. The result is the 4-tuple of the branch taken. After the last branch
  the function prints a message and ends without a \<open>return\<close>: its value is Python's
  \<open>None\<close>. \<open>sys.exit(1)\<close> raises \<open>SystemExit\<close>.
\<close>

definition col_as_rgba :: "string \<Rightarrow> (texel option) reader" where
  "col_as_rgba typ =
    (if typ = ''Color'' then
       and_then (tuple4 read_byte) (\<lambda>(r, g, b, a).
         return (Some (IntCh r, IntCh g, IntCh b, IntCh a)))
     else if typ = ''Bgr565'' then
       and_then read_uint16 (\<lambda>color.
         let r = drop_bit 8 (color AND 0xF800);
             g = drop_bit 3 (color AND 0x07E0);
             b = push_bit 3 (color AND 0x001F)
         in return (Some (IntCh r, IntCh g, IntCh b, IntCh 0xFF)))
     else if typ = ''Bgra5551'' then
       and_then read_uint16 (\<lambda>color.
         let r = drop_bit 7 (color AND 0x7C00);
             g = drop_bit 2 (color AND 0x03E0);
             b = push_bit 3 (color AND 0x001F);
             a = (if color AND 0x8000 = 0x8000 then 0xFF else 0x00)
         in return (Some (IntCh r, IntCh g, IntCh b, IntCh a)))
     else if typ = ''Bgra4444'' then
       and_then read_uint16 (\<lambda>color.
         let r = drop_bit 4 (color AND 0x0F00);
             g = color AND 0x00F0;
             b = push_bit 4 (color AND 0x000F);
             a = drop_bit 8 (color AND 0xF000)
         in return (Some (IntCh r, IntCh g, IntCh b, IntCh a)))
     else if typ = ''Dxt1'' \<or> typ = ''Dxt3'' \<or> typ = ''Dxt5'' then
       raise (SystemExit 1)
     else if typ = ''NormalizedByte2'' then
       and_then read_byte (\<lambda>c. and_then read_byte (\<lambda>a.
         return (Some (IntCh c, IntCh c, IntCh c, IntCh a))))
     else if typ = ''NormalizedByte4'' then
       and_then (tuple4 read_byte) (\<lambda>(r, g, b, a).
         return (Some (IntCh r, IntCh g, IntCh b, IntCh a)))
     else if typ = ''Rgba1010102'' then
       and_then read_uint32 (\<lambda>color.
         let r = drop_bit 20 (color AND 0x3FF00000);
             g = drop_bit 10 (color AND 0x000FFC00);
             b = color AND 0x000003FF;
             a = (if color AND 0xC0000000 = 0xC0000000 then 0xFF
                  else if color AND 0xC0000000 = 0x80000000 then 0x80
                  else 0x00)
         in return (Some (IntCh r, IntCh g, IntCh b, IntCh a)))
     else if typ = ''Rg32'' then
       and_then read_byte (\<lambda>r. and_then read_uint32 (\<lambda>g.
         return (Some (IntCh r, IntCh g, IntCh 0x00, IntCh 0xFF))))
     else if typ = ''Rgba64'' then
       and_then (tuple4 (and_then read_uint16 (\<lambda>c. return (c div 2)))) (\<lambda>(r, g, b, a).
         return (Some (IntCh r, IntCh g, IntCh b, IntCh a)))
     else if typ = ''Alpha8'' then
       and_then read_byte (\<lambda>a. return (Some (IntCh 0, IntCh 0, IntCh 0, IntCh a)))
     else if typ = ''Single'' then
       and_then read_single (\<lambda>c. return (Some (FloatCh c, FloatCh c, FloatCh c, FloatCh c)))
     else if typ = ''Vector2'' then
       and_then read_single (\<lambda>r. and_then read_single (\<lambda>g.
         return (Some (FloatCh r, FloatCh g, IntCh 0x00, IntCh 0xFF))))
     else if typ = ''Vector4'' then
       and_then (tuple4 read_single) (\<lambda>(r, g, b, a).
         return (Some (FloatCh r, FloatCh g, FloatCh b, FloatCh a)))
     else if typ = ''HalfSingle'' then
       and_then unpack_e_fp (\<lambda>c. return (Some (FloatCh c, FloatCh c, FloatCh c, FloatCh c)))
     else if typ = ''HalfVector2'' then
       and_then unpack_e_fp (\<lambda>r. and_then unpack_e_fp (\<lambda>g.
         return (Some (FloatCh r, FloatCh g, IntCh 0x00, IntCh 0xFF))))
     else if typ = ''HalfVector4'' then
       and_then (tuple4 unpack_e_fp) (\<lambda>(r, g, b, a).
         return (Some (FloatCh r, FloatCh g, FloatCh b, FloatCh a)))
     else if typ = ''HdrBlendable'' then
       and_then read_uint16 (\<lambda>c0. and_then read_uint16 (\<lambda>a0.
         let c = c0 div 2
         in return (Some (IntCh c, IntCh c, IntCh c, IntCh (a0 div 2)))))
     else return None)"

text \<open>
  The texture readers take the format from the stream:
  \<open>fmt = SURFACE_FORMATS[self.read_int32()]\<close>, and unpack every texel with it.
\<close>

definition read_surface_format :: "string reader" where
  "read_surface_format = and_then read_int32 (\<lambda>tag. lift (py_index SURFACE_FORMATS tag))"

section \<open>The object dispatch\<close>

text \<open>
  \<open>ObjectReader.parse\<close> is \<open>(self.parsers.get(self.type) or (lambda: None))()\<close>: the reader
  bound to the name, or \<open>None\<close> for a name the table does not have. The table
  \<open>self.parsers\<close> binds the qualified names to the methods of the class, \<open>read_model\<close> and
  \<open>read_object\<close> among them. It is a parameter here, so that every statement below holds
  for every table. A decoded value is of type \<open>'v\<close>, and Python's \<open>None\<close> is \<open>None\<close>.
\<close>

type_synonym 'v parsers = "pystr \<Rightarrow> ('v option) reader option"

definition ObjectReader_parse :: "'v parsers \<Rightarrow> pystr \<Rightarrow> ('v option) reader" where
  "ObjectReader_parse parsers type =
     (case parsers type of None \<Rightarrow> return None | Some parser \<Rightarrow> parser)"


section \<open>Buffers and effects\<close>















definition read_effect :: "(byte list) reader" where
  "read_effect = and_then read_uint32 (\<lambda>size. fp_read (nat size))"

section \<open>Models\<close>














section \<open>Sound effects\<close>

text \<open>
  \<open>int.to_bytes(4, 'little')\<close> raises \<open>OverflowError\<close> for a value that does not fit four
  bytes.
\<close>

definition to_bytes4 :: "int \<Rightarrow> error + byte list" where
  "to_bytes4 n =
     (if 0 \<le> n \<and> n < 2 ^ 32
      then Inr [word_of_int n, word_of_int (n div 2 ^ 8), word_of_int (n div 2 ^ 16),
                word_of_int (n div 2 ^ 24)]
      else Inl OverflowError)"

definition ascii :: "string \<Rightarrow> byte list" where
  "ascii cs = map (\<lambda>c. word_of_nat (of_char c)) cs"

text \<open>
  The first half of \<open>read_sound_effect\<close>: the reads and the bytes of the WAV file. The
  format size is read and dropped; \<open>self.fp.read(18)[:-2]\<close> is the eighteen bytes without
  the last two.
\<close>

definition sound_effect_wav :: "(byte list) reader" where
  "sound_effect_wav =
     and_then read_uint32 (\<lambda>format_size.
     and_then (fp_read 18) (\<lambda>chunk.
       let waveformatex = take (length chunk - 2) chunk in
       and_then read_uint32 (\<lambda>data_size.
       and_then (fp_read (nat data_size)) (\<lambda>data.
       and_then (lift (to_bytes4 (data_size + 36))) (\<lambda>riff_size.
       and_then (lift (to_bytes4 data_size)) (\<lambda>data_size_bytes.
         return (ascii ''RIFF'' @ riff_size @ ascii ''WAVEfmt '' @ [0x10, 0x00, 0x00, 0x00]
                 @ waveformatex @ ascii ''data'' @ data_size_bytes @ data)))))))"

record sound_effect =
  se_loop_start :: int
  se_loop_length :: int
  se_duration :: int

text \<open>
  \<open>read_sound_effect\<close> writes the WAV file and then reads three more numbers. The first
  component of the result is what was written to \<open>save_base + '.wav'\<close>, if the function
  got that far; the second is the outcome of the call.
\<close>

definition read_sound_effect :: "stream \<Rightarrow> byte list option \<times> (error + sound_effect \<times> stream)" where
  "read_sound_effect fp =
     (case sound_effect_wav fp of
        Inl e \<Rightarrow> (None, Inl e)
      | Inr (wav, fp') \<Rightarrow>
          (Some wav,
           and_then read_int32 (\<lambda>loop_start.
           and_then read_int32 (\<lambda>loop_length.
           and_then read_int32 (\<lambda>duration.
             return \<lparr>se_loop_start = loop_start, se_loop_length = loop_length,
                     se_duration = duration\<rparr>))) fp'))"

section \<open>The container\<close>

record reader_entry =
  re_name :: pystr
  re_version :: int

definition read_qualified_name :: "pystr reader" where
  "read_qualified_name =
     and_then read_leb128 (\<lambda>n. and_then (fp_read (nat n)) (\<lambda>bs. lift (utf8_decode bs)))"

text \<open>
  \<open>parse_object\<close> returns a triple: a failure code or \<open>None\<close>, the type id (the reader's
  name on the failure path), and the decoded value. The \<open>try\<close> guards the lookup
  \<open>readers[type_id]['name']\<close>; the handler of \<open>IndexError\<close> evaluates the same lookup again
  in its \<open>return\<close>.
\<close>

datatype type_ref = Type_id int | Type_name pystr

definition parse_object ::
  "'v parsers \<Rightarrow> reader_entry list \<Rightarrow> (int option \<times> type_ref \<times> 'v option) reader" where
  "parse_object parsers readers =
     and_then read_leb128 (\<lambda>n.
       let type_id = n - 1 in
       if type_id = -1 then return (None, Type_id type_id, None)
       else
         (case py_index readers type_id of
            Inr r \<Rightarrow>
              and_then (ObjectReader_parse parsers (re_name r)) (\<lambda>res.
                return (None, Type_id type_id, res))
          | Inl IndexError \<Rightarrow>
              and_then (lift (py_index readers type_id)) (\<lambda>r.
                return (Some 1, Type_name (re_name r), None))
          | Inl e \<Rightarrow> raise e))"

record 'v tree =
  tree_primary :: "'v option"
  tree_shared :: "'v option list"

text \<open>\<open>fp.read(1)[0]\<close>\<close>

definition read_first :: "int reader" where
  "read_first = and_then (fp_read 1) (\<lambda>bs. lift (map_sum id uint (py_index bs 0)))"

definition read_reader_entry :: "reader_entry reader" where
  "read_reader_entry =
     and_then read_qualified_name (\<lambda>type_reader_name.
     and_then read_int32 (\<lambda>reader_version.
       return \<lparr>re_name = type_reader_name, re_version = reader_version\<rparr>))"

text \<open>
  The loop over the shared resources: it leaves \<open>parse\<close> with the code of the first
  \<open>parse_object\<close> that reports one (\<open>Inl\<close>), or ends with the list of the objects.
\<close>

fun parse_shared ::
  "'v parsers \<Rightarrow> reader_entry list \<Rightarrow> nat \<Rightarrow> 'v option list \<Rightarrow> (int + 'v option list) reader" where
  "parse_shared parsers readers 0 acc = return (Inr acc)"
| "parse_shared parsers readers (Suc n) acc =
     and_then (parse_object parsers readers) (\<lambda>(res, type_id, obj).
       case res of
         Some code \<Rightarrow> return (Inl code)
       | None \<Rightarrow> parse_shared parsers readers n (acc @ [obj]))"

text \<open>
  \<open>parse\<close>, up to its last statement: every read of the function. The value is the code of
  an early \<open>return\<close> (\<open>Inl\<close>) or the tree that reaches the last statement (\<open>Inr\<close>). The tree is
  a local variable until then.
\<close>

definition parse_reads :: "'v parsers \<Rightarrow> (int + 'v tree) reader" where
  "parse_reads parsers =
     and_then (fp_read 3) (\<lambda>magic.
     if magic \<noteq> ascii ''XNB'' then return (Inl 1)
     else
       and_then (fp_read 1) (\<lambda>tp.
       and_then read_first (\<lambda>fv.
       and_then read_first (\<lambda>flags.
         let is_hidef = (flags AND 0x01 = 0x01);
             is_compressed = (flags AND 0x80 = 0x80)
         in
         if is_compressed then return (Inl 1)
         else
           and_then read_uint32 (\<lambda>compressed_size.
           and_then read_leb128 (\<lambda>count.
           and_then (read_n (nat count) read_reader_entry) (\<lambda>readers.
           and_then read_leb128 (\<lambda>shared_resource_count.
           and_then (parse_object parsers readers) (\<lambda>(res, type_id, obj).
             case res of
               Some code \<Rightarrow> return (Inl code)
             | None \<Rightarrow>
                 and_then (parse_shared parsers readers (nat shared_resource_count) [])
                   (\<lambda>r. case r of
                      Inl code \<Rightarrow> return (Inl code)
                    | Inr objs \<Rightarrow>
                        return (Inr \<lparr>tree_primary = obj, tree_shared = objs\<rparr>)))))))))))"

text \<open>
  \<open>parse\<close>. \<open>declined\<close> says that the output directory exists and the user did not answer
  yes. The last statement opens \<open>index.json\<close> and hands the tree to \<open>json.dump\<close>, which raises
  \<open>TypeError\<close> at a value it cannot encode (the bytes of an effect or of a vertex buffer)
  and leaves the file with what it had written so far; which trees it can encode is the
  parameter \<open>serialisable\<close>, since the decoded values are a parameter too. The value of
  \<open>parse\<close> is the state of \<open>index.json\<close> and the outcome of the call: an exception or the
  code returned.
\<close>

datatype 'v index_json = Not_written | Partly_written | Written "'v tree"

definition parse ::
  "'v parsers \<Rightarrow> ('v tree \<Rightarrow> bool) \<Rightarrow> bool \<Rightarrow> stream \<Rightarrow> 'v index_json \<times> (error + int)" where
  "parse parsers serialisable declined fp =
     (if declined then (Not_written, Inl (SystemExit 1))
      else
        (case parse_reads parsers fp of
           Inl e \<Rightarrow> (Not_written, Inl e)
         | Inr (Inl code, fp') \<Rightarrow> (Not_written, Inr code)
         | Inr (Inr tree, fp') \<Rightarrow>
             (if serialisable tree then (Written tree, Inr 0)
              else (Partly_written, Inl TypeError))))"

section \<open>Measures for the statements about models\<close>




section \<open>Two example models\<close>














section \<open>The LEB128 encoder of the specification\<close>

text \<open>
  Modelled from the spec: the program has no LEB128 encoder. This one is the canonical
  minimal-length encoding the specification describes: seven payload bits per byte, the
  least significant group first, the high bit set on every byte but the last.
\<close>

fun leb128_encode_spec :: "nat \<Rightarrow> byte list" where
  "leb128_encode_spec v =
     (if v < 128 then [word_of_nat v]
      else word_of_nat (128 + v mod 128) # leb128_encode_spec (v div 128))"

section \<open>Basic facts\<close>

lemmas reader_simps =
  and_then_def return_def raise_def lift_def fp_read_def read_one_def
  read_byte_def read_uint16_def read_uint32_def read_int32_def read_int64_def read_single_def

lemma unsigned_le_bounds: "0 \<le> unsigned_le bs \<and> unsigned_le bs < 256 ^ length bs"
proof (induction bs)
  case Nil
  show ?case by simp
next
  case (Cons b bs)
  have "uint b < 256" using uint_bounded [of b] by simp
  moreover have "0 \<le> uint b" by simp
  ultimately show ?case using Cons by simp
qed

lemma read_int64_append:
  "length bs = 8 \<Longrightarrow> read_int64 (bs @ rest) = Inr (signed_le bs, rest)"
  by (simp add: reader_simps)

lemma col_as_rgba_unknown:
  "typ \<notin> set SURFACE_FORMATS \<Longrightarrow> col_as_rgba typ fp = Inr (None, fp)"
  by (simp add: col_as_rgba_def SURFACE_FORMATS_def return_def)

lemma and_then_Inr:
  assumes "and_then m f fp = Inr r"
  obtains x fp1 where "m fp = Inr (x, fp1)" and "f x fp1 = Inr r"
  using assms by (auto simp: and_then_def split: sum.splits)

lemma fp_read_append:
  "length bs = n \<Longrightarrow> n < 2 ^ 63 \<Longrightarrow> fp_read n (bs @ rest) = Inr (bs, rest)"
  by (simp add: fp_read_def)

lemma read_uint32_append:
  "length bs = 4 \<Longrightarrow> read_uint32 (bs @ rest) = Inr (unsigned_le bs, rest)"
  by (simp add: reader_simps)

lemma calcsize_small: "calcsize f < 2 ^ 63"
  by (cases f) simp_all

lemma read_one_short:
  "calcsize f = sz \<Longrightarrow> length fp < sz \<Longrightarrow> read_one f sz fp = Inl StructError"
  using calcsize_small [of f]
  by (auto simp: read_one_def and_then_def fp_read_def lift_def)

lemma read_one_Inr:
  assumes rd: "read_one f sz fp = Inr (bs, fp')" and sz: "calcsize f = sz"
  shows "length bs = sz \<and> fp = bs @ fp'"
  using rd sz
  by (auto simp: read_one_def and_then_def fp_read_def lift_def split: sum.splits if_splits)




lemma read_uint32_Inr:
  assumes "read_uint32 fp = Inr (v, fp')"
  shows "length fp = length fp' + 4 \<and> 0 \<le> v \<and> v < 2 ^ 32"
proof -
  from assms obtain bs where r: "read_one Fmt_I 4 fp = Inr (bs, fp')" and v: "v = unsigned_le bs"
    unfolding read_uint32_def by (auto elim!: and_then_Inr simp: return_def)
  from read_one_Inr [OF r] have "length bs = 4" "fp = bs @ fp'" by simp_all
  then show ?thesis using unsigned_le_bounds [of bs] v by simp
qed

text \<open>A byte below 128 is a LEB128 number of one byte, and \<open>read_leb128\<close> reads it right.\<close>

lemma uint_low7:
  fixes b :: byte
  assumes "uint b < 128"
  shows "uint b AND 0x7f = uint b" and "uint b AND 0x80 = 0"
proof -
  have m: "(0x7f :: int) = mask 7" by (simp add: mask_eq_exp_minus_1)
  have "take_bit 7 (uint b) = uint b"
    using assms by (simp add: take_bit_int_eq_self)
  then show "uint b AND 0x7f = uint b"
    unfolding m by (simp add: take_bit_eq_mask)
  have "\<not> bit (uint b) 7"
    using assms by (simp add: bit_iff_odd)
  then have "uint b AND 2 ^ 7 = 0"
    by (simp only: and_exp_eq_0_iff_not_bit not_False_eq_True)
  moreover have "(2 :: int) ^ 7 = 0x80" by simp
  ultimately show "uint b AND 0x80 = 0" by (simp only:)
qed

lemma read_leb128_single_byte:
  fixes b :: byte
  assumes "uint b < 128"
  shows "read_leb128 (b # fp) = Inr (uint b, fp)"
  using uint_low7 [OF assms] by (simp add: read_leb128_def Let_def)

section \<open>The dictionary adapter\<close>

text \<open>
  C1 (the code departs from the claim). The claim: the dictionary adapter reads the count
  and then, for each entry, calls the key decoder and the value decoder on the stream and
  stores the decoded key with the decoded value. The code: with a count of 1 followed by
  the bytes 7 and 9 and \<open>read_byte\<close> for both decoders, \<open>read_dictionary\<close> returns the
  dictionary that maps the function \<open>read_byte\<close> to the function \<open>read_byte\<close>, and the
  bytes 7 and 9 are still unread.
\<close>

theorem read_dictionary_stores_readers:
  "read_dictionary read_byte read_byte [1, 0, 0, 0, 7, 9]
     = Inr ([(read_byte, read_byte)], [7, 9])"
  by (simp add: read_dictionary_def reader_simps)

section \<open>Texel unpacking\<close>

text \<open>
  C2 (the code departs from the claim). The claim: unpacking a texel with a format tag
  that is none of the twenty formats is a fatal error that ends the run. The code:
  \<open>_col_as_rgba\<close> with the unknown name \<open>Foo\<close> returns \<open>None\<close> with nothing read, and the
  texel loop goes on to the next texel; and the tag -1 in the stream of a texture is
  Python's index of the last format, so the texels are unpacked as \<open>HdrBlendable\<close>.
\<close>

theorem col_as_rgba_unknown_format_returns:
  "col_as_rgba ''Foo'' [1, 2, 3, 4] = Inr (None, [1, 2, 3, 4])
   \<and> read_n 2 (col_as_rgba ''Foo'') [1, 2, 3, 4] = Inr ([None, None], [1, 2, 3, 4])
   \<and> read_surface_format [0xFF, 0xFF, 0xFF, 0xFF, 2, 0, 4, 0]
        = Inr (''HdrBlendable'', [2, 0, 4, 0])
   \<and> col_as_rgba ''HdrBlendable'' [2, 0, 4, 0]
        = Inr (Some (IntCh 1, IntCh 1, IntCh 1, IntCh 2), [])"
proof -
  have unknown: "''Foo'' \<notin> set SURFACE_FORMATS"
    by (simp add: SURFACE_FORMATS_def)
  have one: "col_as_rgba ''Foo'' fp = Inr (None, fp)" for fp
    by (rule col_as_rgba_unknown [OF unknown])
  have two: "read_n 2 (col_as_rgba ''Foo'') [1, 2, 3, 4] = Inr ([None, None], [1, 2, 3, 4])"
    by (simp add: one numeral_2_eq_2)
  have tag: "read_surface_format [0xFF, 0xFF, 0xFF, 0xFF, 2, 0, 4, 0]
        = Inr (''HdrBlendable'', [2, 0, 4, 0])"
    by (simp add: read_surface_format_def reader_simps signed_le_def py_index_def
        SURFACE_FORMATS_def)
  have hdr: "col_as_rgba ''HdrBlendable'' [2, 0, 4, 0]
        = Inr (Some (IntCh 1, IntCh 1, IntCh 1, IntCh 2), [])"
    by (simp add: col_as_rgba_def reader_simps)
  show ?thesis using one two tag hdr by simp
qed

text \<open>
  C5 (the code departs from the claim). The claim: with enough bytes left, a HalfSingle,
  HalfVector2 or HalfVector4 texel takes 2, 4 or 8 bytes and gives half-float channels.
  The code: the three branches pass the file object to \<open>struct.unpack\<close>, which raises
  \<open>TypeError\<close> on every stream; no byte is read and no texel is returned.
\<close>

theorem col_as_rgba_half_formats_raise:
  "col_as_rgba ''HalfSingle'' fp = Inl TypeError
   \<and> col_as_rgba ''HalfVector2'' fp = Inl TypeError
   \<and> col_as_rgba ''HalfVector4'' fp = Inl TypeError"
  by (simp add: col_as_rgba_def and_then_def unpack_e_fp_def tuple4_def)

text \<open>
  C7. A Bgra5551 texel whose packed 16-bit value is 0x8000 unpacks to (0, 0, 0, 255), and
  a Bgra4444 texel whose packed value is 0xF000 unpacks to (0, 0, 0, 240): its alpha is
  240, not 255.
\<close>

theorem col_as_rgba_bgra5551_bgra4444:
  "(read_uint16 fp1 = Inr (0x8000, fp1') \<longrightarrow>
      col_as_rgba ''Bgra5551'' fp1 = Inr (Some (IntCh 0, IntCh 0, IntCh 0, IntCh 255), fp1'))
   \<and> (read_uint16 fp2 = Inr (0xF000, fp2') \<longrightarrow>
      col_as_rgba ''Bgra4444'' fp2 = Inr (Some (IntCh 0, IntCh 0, IntCh 0, IntCh 240), fp2'))"
  by (simp add: col_as_rgba_def and_then_def return_def)

theorem col_as_rgba_bgra5551_bgra4444_witness:
  "read_uint16 [0x00, 0x80] = Inr (0x8000, [])
   \<and> col_as_rgba ''Bgra5551'' [0x00, 0x80]
        = Inr (Some (IntCh 0, IntCh 0, IntCh 0, IntCh 255), [])
   \<and> read_uint16 [0x00, 0xF0] = Inr (0xF000, [])
   \<and> col_as_rgba ''Bgra4444'' [0x00, 0xF0]
        = Inr (Some (IntCh 0, IntCh 0, IntCh 0, IntCh 240), [])"
proof -
  have a: "read_uint16 [0x00, 0x80] = Inr (0x8000, [])"
    by (simp add: reader_simps)
  have b: "read_uint16 [0x00, 0xF0] = Inr (0xF000, [])"
    by (simp add: reader_simps)
  show ?thesis
    using col_as_rgba_bgra5551_bgra4444 [of "[0x00, 0x80]" "[]" "[0x00, 0xF0]" "[]"] a b
    by simp
qed

section \<open>LEB128\<close>

text \<open>
  C8 (the code departs from the claim). The claim: decoding the canonical LEB128 encoding
  of every unsigned integer V gives V back. The code: the canonical encoding of 128 is the
  two bytes 0x80, 0x01, and \<open>read_leb128\<close> decodes them to 1, because the shift count
  \<open>7 * i\<close> stays 0 and the second group is not moved up.
\<close>

theorem read_leb128_of_128:
  "leb128_encode_spec 128 = [0x80, 0x01] \<and> read_leb128 [0x80, 0x01] = Inr (1, [])"
  by (simp add: read_leb128_def)

section \<open>Date and time\<close>

text \<open>
  C10. For every 8-byte input whose signed 64-bit value is negative (the sign bit is
  set), \<open>read_datetime\<close> returns a kind that is the arithmetic shift of the value by 62
  bits, which is -2 or -1 and not one of 0, 1, 2, 3, and a tick count that is negative.
\<close>

theorem read_datetime_sign_bit:
  assumes len: "length bs = 8" and neg: "signed_le bs < 0"
  shows "\<exists>k t. read_datetime (bs @ rest) = Inr (\<lparr>dt_kind = k, dt_ticks = t\<rparr>, rest)
           \<and> k = signed_le bs div 2 ^ 62 \<and> (k = -2 \<or> k = -1)
           \<and> t = signed_le bs AND NOT (3 * 2 ^ 62) \<and> t < 0"
proof -
  let ?v = "signed_le bs"
  have u: "0 \<le> unsigned_le bs \<and> unsigned_le bs < 2 ^ 64"
    using unsigned_le_bounds [of bs] len by simp
  have lo: "- (2 ^ 63) \<le> ?v"
    using u neg by (simp add: signed_le_def Let_def len split: if_splits)
  have "(- (2 ^ 63)) div 2 ^ 62 \<le> ?v div (2 ^ 62 :: int)"
    using lo by (intro zdiv_mono1) simp_all
  then have k1: "-2 \<le> ?v div 2 ^ 62" by simp
  have "?v div 2 ^ 62 \<le> (-1) div (2 ^ 62 :: int)"
    using neg by (intro zdiv_mono1) simp_all
  then have k2: "?v div 2 ^ 62 \<le> -1" by simp
  have k: "?v div 2 ^ 62 = -2 \<or> ?v div 2 ^ 62 = -1"
    using k1 k2 by linarith
  have t: "?v AND NOT (3 * 2 ^ 62) < 0"
    using neg by simp
  have run: "read_datetime (bs @ rest)
      = Inr (\<lparr>dt_kind = ?v div 2 ^ 62, dt_ticks = ?v AND NOT (3 * 2 ^ 62)\<rparr>, rest)"
    using read_int64_append [OF len, of rest]
    by (simp add: read_datetime_def and_then_def return_def drop_bit_eq_div push_bit_eq_mult)
  show ?thesis using run k t by blast
qed

theorem read_datetime_sign_bit_witness:
  "length [0, 0, 0, 0, 0, 0, 0, 0x80 :: byte] = 8
   \<and> signed_le [0, 0, 0, 0, 0, 0, 0, 0x80] = - (2 ^ 63)
   \<and> (\<exists>k t. read_datetime [0, 0, 0, 0, 0, 0, 0, 0x80] = Inr (\<lparr>dt_kind = k, dt_ticks = t\<rparr>, [])
        \<and> k = -2 \<and> t < 0)"
proof -
  have s: "signed_le [0, 0, 0, 0, 0, 0, 0, 0x80] = - (2 ^ 63)"
    by (simp add: signed_le_def)
  have "signed_le [0, 0, 0, 0, 0, 0, 0, 0x80] < 0" unfolding s by simp
  from read_datetime_sign_bit [OF _ this, of "[]"] s show ?thesis by auto
qed

section \<open>Reads at the end of the stream\<close>

lemma leb128_loop_unterminated:
  "\<forall>b \<in> set fp. uint b AND 0x80 \<noteq> 0 \<Longrightarrow> leb128_loop result i fp = Inl IndexError"
  by (induction fp arbitrary: result) (simp_all add: Let_def)

text \<open>
  C4, as the claim states it, fails: the claim says that every primitive or blob read
  that needs bytes past the end of the stream fails with a truncation error and never
  returns a short or empty result. A blob of declared length 5 with 2 bytes left is
  returned as those 2 bytes, and a string of declared length 3 with 1 byte left is
  returned as a string of 1 character.
\<close>

theorem short_payload_is_returned:
  "read_effect [5, 0, 0, 0, 1, 2] = Inr ([1, 2], [])
   \<and> read_string [3, 0x61] = Inr ([0x61], [])"
  by (simp add: read_effect_def read_string_def read_leb128_def reader_simps)

text \<open>
  C4, amended. A fixed-width read with fewer bytes left than its width fails with
  \<open>struct.error\<close>, and so does a blob read whose 4-byte length is cut short. A LEB128 read
  that meets the end of the stream before a byte with the high bit clear fails with
  \<open>IndexError\<close>, and so does a string read whose length prefix is cut short in that way.
  When the 4-byte length of a blob is complete and fewer bytes are left than it declares,
  the blob read returns the bytes that are left. When the length prefix of a string is a
  single byte (a declared length below 128) and fewer bytes are left than it declares,
  the string read returns the decoding of the bytes that are left, or the decoder's error
  when they are not valid UTF-8. Nothing is said of a string with a longer length prefix.
\<close>

theorem reads_past_the_end:
  fixes bp :: byte
  shows
  "(length fp1 < 1 \<longrightarrow>
      read_byte fp1 = Inl StructError \<and> read_sbyte fp1 = Inl StructError
      \<and> read_boolean fp1 = Inl StructError)
   \<and> (length fp2 < 2 \<longrightarrow>
      read_int16 fp2 = Inl StructError \<and> read_uint16 fp2 = Inl StructError)
   \<and> (length fp4 < 4 \<longrightarrow>
      read_int32 fp4 = Inl StructError \<and> read_uint32 fp4 = Inl StructError
      \<and> read_single fp4 = Inl StructError \<and> read_effect fp4 = Inl StructError)
   \<and> (length fp8 < 8 \<longrightarrow>
      read_int64 fp8 = Inl StructError \<and> read_uint64 fp8 = Inl StructError
      \<and> read_double fp8 = Inl StructError)
   \<and> ((\<forall>b \<in> set fpl. uint b AND 0x80 \<noteq> 0) \<longrightarrow>
      read_leb128 fpl = Inl IndexError \<and> read_string fpl = Inl IndexError)
   \<and> (read_uint32 fpe = Inr (sz, fpe') \<and> length fpe' < nat sz \<longrightarrow>
      read_effect fpe = Inr (fpe', []))
   \<and> (uint bp < 128 \<and> length fps < nat (uint bp) \<longrightarrow>
      read_string (bp # fps)
        = (case utf8_decode fps of Inl e \<Rightarrow> Inl e | Inr str \<Rightarrow> Inr (str, [])))"
proof -
  have one: "length fp1 < 1 \<Longrightarrow>
      read_byte fp1 = Inl StructError \<and> read_sbyte fp1 = Inl StructError
      \<and> read_boolean fp1 = Inl StructError"
    by (simp add: read_byte_def read_sbyte_def read_boolean_def and_then_def read_one_short)
  have two: "length fp2 < 2 \<Longrightarrow>
      read_int16 fp2 = Inl StructError \<and> read_uint16 fp2 = Inl StructError"
    by (simp add: read_int16_def read_uint16_def and_then_def read_one_short)
  have four: "length fp4 < 4 \<Longrightarrow>
      read_int32 fp4 = Inl StructError \<and> read_uint32 fp4 = Inl StructError
      \<and> read_single fp4 = Inl StructError \<and> read_effect fp4 = Inl StructError"
    by (simp add: read_int32_def read_uint32_def read_single_def read_effect_def and_then_def
        read_one_short)
  have eight: "length fp8 < 8 \<Longrightarrow>
      read_int64 fp8 = Inl StructError \<and> read_uint64 fp8 = Inl StructError
      \<and> read_double fp8 = Inl StructError"
    by (simp add: read_int64_def read_uint64_def read_double_def and_then_def read_one_short)
  have leb: "\<forall>b \<in> set fpl. uint b AND 0x80 \<noteq> 0 \<Longrightarrow>
      read_leb128 fpl = Inl IndexError \<and> read_string fpl = Inl IndexError"
    by (simp add: read_leb128_def read_string_def and_then_def leb128_loop_unterminated)
  have eff: "read_effect fpe = Inr (fpe', [])"
    if "read_uint32 fpe = Inr (sz, fpe') \<and> length fpe' < nat sz"
  proof -
    from that have "read_uint32 fpe = Inr (sz, fpe')" by simp
    from read_uint32_Inr [OF this] have "sz < 2 ^ 32" by simp
    then have "sz < 2 ^ 63" by simp
    then have "nat sz < 2 ^ 63" by (simp add: nat_less_iff)
    with that show ?thesis
      by (simp add: read_effect_def and_then_def fp_read_def)
  qed
  have str: "read_string (bp # fps)
        = (case utf8_decode fps of Inl e \<Rightarrow> Inl e | Inr str \<Rightarrow> Inr (str, []))"
    if "uint bp < 128 \<and> length fps < nat (uint bp)"
  proof -
    from that have "uint bp < 2 ^ 63" by simp
    then have "nat (uint bp) < 2 ^ 63" by (simp only: nat_less_iff [OF uint_ge_0] of_nat_power of_nat_numeral)
    with that show ?thesis
      by (simp add: read_string_def and_then_def read_leb128_single_byte fp_read_def lift_def)
  qed
  show ?thesis using one two four eight leb eff str by blast
qed

theorem reads_past_the_end_witness:
  "length ([] :: byte list) < 1 \<and> read_byte [] = Inl StructError
   \<and> length [1 :: byte] < 2 \<and> read_uint16 [1] = Inl StructError
   \<and> length [1, 2, 3 :: byte] < 4 \<and> read_uint32 [1, 2, 3] = Inl StructError
   \<and> length [1, 2, 3, 4, 5, 6, 7 :: byte] < 8 \<and> read_int64 [1, 2, 3, 4, 5, 6, 7] = Inl StructError
   \<and> list_all (\<lambda>b. uint b AND 0x80 \<noteq> 0) [0x80, 0x81 :: byte]
   \<and> read_leb128 [0x80, 0x81] = Inl IndexError
   \<and> read_uint32 [5, 0, 0, 0, 1, 2] = Inr (5, [1, 2]) \<and> length [1, 2 :: byte] < nat 5
   \<and> read_effect [5, 0, 0, 0, 1, 2] = Inr ([1, 2], [])
   \<and> uint (3 :: byte) < 128 \<and> length [0x61, 0xC3 :: byte] < nat (uint (3 :: byte))
   \<and> read_string [3, 0x61, 0xC3] = Inl UnicodeDecodeError
   \<and> read_string [3, 0x61, 0x62] = Inr ([0x61, 0x62], [])"
proof -
  have l: "\<forall>b \<in> set [0x80, 0x81 :: byte]. uint b AND 0x80 \<noteq> 0" by simp
  have e: "read_uint32 [5, 0, 0, 0, 1, 2] = Inr (5, [1, 2]) \<and> length [1, 2 :: byte] < nat 5"
    by (simp add: reader_simps)
  have s: "uint (3 :: byte) < 128 \<and> length [0x61, 0xC3 :: byte] < nat (uint (3 :: byte))"
    "uint (3 :: byte) < 128 \<and> length [0x61, 0x62 :: byte] < nat (uint (3 :: byte))"
    by simp_all
  show ?thesis
    using reads_past_the_end [of "[]" "[1]" "[1, 2, 3]" "[1, 2, 3, 4, 5, 6, 7]" "[0x80, 0x81]"
        "[5, 0, 0, 0, 1, 2]" 5 "[1, 2]" 3 "[0x61, 0xC3]"]
      reads_past_the_end [of "[]" "[1]" "[1, 2, 3]" "[1, 2, 3, 4, 5, 6, 7]" "[0x80, 0x81]"
        "[5, 0, 0, 0, 1, 2]" 5 "[1, 2]" 3 "[0x61, 0x62]"] l e s
    by (simp add: is_cont_def in_range_def cons_cp_def)
qed

section \<open>The WAV file of a sound effect\<close>

lemma base256_step:
  fixes x m y k :: int
  shows "x = m + 256 * y \<Longrightarrow> 0 \<le> m \<Longrightarrow> k \<le> y \<Longrightarrow> 256 * k \<le> x"
  by simp

lemma to_bytes4_value:
  assumes "to_bytes4 n = Inr bs"
  shows "length bs = 4 \<and> unsigned_le bs = n"
proof -
  define a where "a = n div 256"
  define b where "b = a div 256"
  define c where "c = b div 256"
  have r: "0 \<le> n" "n < 2 ^ 32"
    and bs: "bs = [word_of_int n, word_of_int (n div 2 ^ 8), word_of_int (n div 2 ^ 16),
                   word_of_int (n div 2 ^ 24)]"
    using assms by (auto simp: to_bytes4_def split: if_splits)
  have d8: "n div 2 ^ 8 = a" by (simp add: a_def)
  have d16: "n div 2 ^ 16 = b"
    using zdiv_zmult2_eq [of 256 n 256] by (simp add: a_def b_def)
  have d24: "n div 2 ^ 24 = c"
    using zdiv_zmult2_eq [of 256 "n div 256" 256] zdiv_zmult2_eq [of 65536 n 256]
    by (simp add: a_def b_def c_def)
  have n: "n = n mod 256 + 256 * a" by (simp add: a_def)
  have a: "a = a mod 256 + 256 * b" by (simp add: b_def)
  have b: "b = b mod 256 + 256 * c" by (simp add: c_def)
  have c0: "0 \<le> c" using r by (simp add: a_def b_def c_def)
  have "c < 256"
  proof (rule ccontr)
    assume "\<not> c < 256"
    then have c256: "256 \<le> c" by simp
    have b256: "256 * 256 \<le> b"
      using base256_step [OF b _ c256] by simp
    have a256: "256 * (256 * 256) \<le> a"
      using base256_step [OF a _ b256] by simp
    have "256 * (256 * (256 * 256)) \<le> n"
      using base256_step [OF n _ a256] by simp
    then show False using r by simp
  qed
  then have c: "c mod 256 = c" using c0 by simp
  have "unsigned_le bs = n mod 256 + 256 * (a mod 256 + 256 * (b mod 256 + 256 * (c mod 256)))"
    unfolding bs d8 d16 d24 by (simp add: uint_word_of_int)
  also have "\<dots> = n mod 256 + 256 * (a mod 256 + 256 * b)"
    unfolding c by (simp only: b [symmetric])
  also have "\<dots> = n mod 256 + 256 * a"
    by (simp only: a [symmetric])
  also have "\<dots> = n"
    by (rule n [symmetric])
  finally show ?thesis using bs by simp
qed

text \<open>
  C9, as the claim states it, fails: the claim is for every N. With a payload of
  4294967260 bytes, N + 36 is 2 ^ 32 and does not fit the four bytes of the RIFF size:
  \<open>to_bytes\<close> raises \<open>OverflowError\<close> and no file is written.
\<close>

theorem sound_effect_riff_size_overflow:
  "read_sound_effect ([18, 0, 0, 0] @ replicate 18 0 @ [0xDC, 0xFF, 0xFF, 0xFF]
                      @ replicate 4294967260 0)
     = (None, Inl OverflowError)"
proof -
  have a: "length [18, 0, 0, 0 :: byte] = 4" by simp
  have b: "length (replicate 18 (0 :: byte)) = 18" by simp
  have c: "length [0xDC, 0xFF, 0xFF, 0xFF :: byte] = 4" by simp
  have d: "length (replicate 4294967260 (0 :: byte)) = nat 4294967260" by simp
  have a': "(4 :: nat) < 2 ^ 63" and b': "(18 :: nat) < 2 ^ 63"
    and d': "nat 4294967260 < 2 ^ 63" by simp_all
  have v: "unsigned_le [0xDC, 0xFF, 0xFF, 0xFF] = 4294967260" by simp
  have "sound_effect_wav ([18, 0, 0, 0] @ replicate 18 0 @ [0xDC, 0xFF, 0xFF, 0xFF]
                      @ replicate 4294967260 0 @ []) = Inl OverflowError"
    unfolding sound_effect_wav_def
    apply (subst and_then_def)
    apply (simp only: read_uint32_append [OF a] sum.case prod.case)
    apply (subst and_then_def)
    apply (simp only: fp_read_append [OF b b'] sum.case prod.case Let_def)
    apply (subst and_then_def)
    apply (simp only: read_uint32_append [OF c] v sum.case prod.case)
    apply (subst and_then_def)
    apply (simp only: fp_read_append [OF d d'] sum.case prod.case)
    apply (simp add: and_then_def lift_def to_bytes4_def)
    done
  then show ?thesis by (simp only: read_sound_effect_def sum.case append_Nil2)
qed

text \<open>
  C9, amended. For every sound effect whose stream holds the format size, an 18-byte
  format chunk, the data size N and N bytes of PCM, with N + 36 below 2 ^ 32, the WAV file
  written is \<open>RIFF\<close>, the size N + 36 in four bytes, \<open>WAVEfmt \<close>, the four bytes of a 16, the
  first 16 bytes of the format chunk, \<open>data\<close>, the size N in four bytes, and the PCM
  bytes; it is 44 + N bytes long.
\<close>

theorem sound_effect_wav_layout:
  assumes fs: "length fs = 4" and fmt: "length fmt = 18"
    and nb: "length nb = 4" "unsigned_le nb = int N"
    and pcm: "length pcm = N" and fits: "int N + 36 < 2 ^ 32"
  shows "\<exists>wav riff_size data_size.
           fst (read_sound_effect (fs @ fmt @ nb @ pcm @ rest)) = Some wav
         \<and> wav = ascii ''RIFF'' @ riff_size @ ascii ''WAVEfmt '' @ [0x10, 0, 0, 0] @ take 16 fmt
                 @ ascii ''data'' @ data_size @ pcm
         \<and> length riff_size = 4 \<and> unsigned_le riff_size = int N + 36
         \<and> length data_size = 4 \<and> unsigned_le data_size = int N
         \<and> length wav = 44 + N"
proof -
  obtain rs where rs: "to_bytes4 (int N + 36) = Inr rs"
    using fits by (simp add: to_bytes4_def)
  obtain ds where ds: "to_bytes4 (int N) = Inr ds"
    using fits by (simp add: to_bytes4_def)
  note rsv = to_bytes4_value [OF rs] and dsv = to_bytes4_value [OF ds]
  have small: "N < 2 ^ 63"
  proof -
    from fits have "int N < int (2 ^ 63)" by simp
    then show ?thesis by (simp only: of_nat_less_iff)
  qed
  let ?wav = "ascii ''RIFF'' @ rs @ ascii ''WAVEfmt '' @ [0x10, 0, 0, 0] @ take 16 fmt
                 @ ascii ''data'' @ ds @ pcm"
  have "sound_effect_wav (fs @ fmt @ nb @ pcm @ rest) = Inr (?wav, rest)"
    unfolding sound_effect_wav_def
    apply (subst and_then_def)
    apply (simp add: read_uint32_append [OF fs])
    apply (subst and_then_def)
    apply (simp add: fp_read_append [OF fmt] fmt Let_def)
    apply (subst and_then_def)
    apply (simp add: read_uint32_append [OF nb(1)] nb(2))
    apply (subst and_then_def)
    apply (simp add: fp_read_append [OF pcm small])
    apply (simp add: and_then_def lift_def rs ds return_def)
    done
  then have "fst (read_sound_effect (fs @ fmt @ nb @ pcm @ rest)) = Some ?wav"
    by (simp add: read_sound_effect_def)
  moreover have "length ?wav = 44 + N"
    using rsv dsv fmt pcm by (simp add: ascii_def)
  ultimately show ?thesis using rsv dsv by blast
qed

theorem sound_effect_wav_layout_witness:
  "length [18, 0, 0, 0 :: byte] = 4
   \<and> length [1, 0, 2, 0, 0x44, 0xAC, 0, 0, 0x10, 0xB1, 2, 0, 4, 0, 16, 0, 0, 0 :: byte] = 18
   \<and> length [2, 0, 0, 0 :: byte] = 4 \<and> unsigned_le [2, 0, 0, 0] = int 2
   \<and> length [5, 6 :: byte] = 2 \<and> int 2 + 36 < 2 ^ 32
   \<and> fst (read_sound_effect
         ([18, 0, 0, 0] @ [1, 0, 2, 0, 0x44, 0xAC, 0, 0, 0x10, 0xB1, 2, 0, 4, 0, 16, 0, 0, 0]
          @ [2, 0, 0, 0] @ [5, 6] @ [0, 0, 0, 0, 0, 0, 0, 0, 0, 0, 0, 0]))
       = Some ([0x52, 0x49, 0x46, 0x46, 38, 0, 0, 0, 0x57, 0x41, 0x56, 0x45, 0x66, 0x6D, 0x74, 0x20,
                16, 0, 0, 0, 1, 0, 2, 0, 0x44, 0xAC, 0, 0, 0x10, 0xB1, 2, 0, 4, 0, 16, 0,
                0x64, 0x61, 0x74, 0x61, 2, 0, 0, 0, 5, 6])"
proof -
  have h: "unsigned_le [2, 0, 0, 0] = int 2" by simp
  obtain wav riff_size data_size where
    w: "fst (read_sound_effect
         ([18, 0, 0, 0] @ [1, 0, 2, 0, 0x44, 0xAC, 0, 0, 0x10, 0xB1, 2, 0, 4, 0, 16, 0, 0, 0]
          @ [2, 0, 0, 0] @ [5, 6] @ [0, 0, 0, 0, 0, 0, 0, 0, 0, 0, 0, 0])) = Some wav"
    and l: "length wav = 44 + 2"
    using sound_effect_wav_layout [of "[18, 0, 0, 0]"
        "[1, 0, 2, 0, 0x44, 0xAC, 0, 0, 0x10, 0xB1, 2, 0, 4, 0, 16, 0, 0, 0]"
        "[2, 0, 0, 0]" 2 "[5, 6]" "[0, 0, 0, 0, 0, 0, 0, 0, 0, 0, 0, 0]"] h
    by auto
  have "fst (read_sound_effect
         ([18, 0, 0, 0] @ [1, 0, 2, 0, 0x44, 0xAC, 0, 0, 0x10, 0xB1, 2, 0, 4, 0, 16, 0, 0, 0]
          @ [2, 0, 0, 0] @ [5, 6] @ [0, 0, 0, 0, 0, 0, 0, 0, 0, 0, 0, 0]))
       = Some ([0x52, 0x49, 0x46, 0x46, 38, 0, 0, 0, 0x57, 0x41, 0x56, 0x45, 0x66, 0x6D, 0x74, 0x20,
                16, 0, 0, 0, 1, 0, 2, 0, 0x44, 0xAC, 0, 0, 0x10, 0xB1, 2, 0, 4, 0, 16, 0,
                0x64, 0x61, 0x74, 0x61, 2, 0, 0, 0, 5, 6])"
    by (simp add: read_sound_effect_def sound_effect_wav_def reader_simps to_bytes4_def ascii_def)
  then show ?thesis using h w l by simp
qed

section \<open>A type reference beyond the reader table\<close>

lemma parse_object_never_returns_code:
  "parse_object parsers readers fp \<noteq> Inr ((Some code, t, obj), fp')"
  by (auto simp: parse_object_def and_then_def lift_def return_def raise_def Let_def
      split: sum.splits error.splits if_splits)

text \<open>
  C3 (the code departs from the claim). The claim: every input whose object type
  reference N has N - 1 at or beyond the length of the reader table fails with a failure
  code of its own, and the decode is aborted. The code: \<open>parse_object\<close> never returns a
  failure code, on any input, because the handler that is to return the code 1 looks the
  reader up again and raises. With one type reader and the reference 2, \<open>parse\<close> ends in an
  uncaught \<open>IndexError\<close>, as it does when the stream is cut off before the reference. With
  one type reader and the reference 128, written as the two bytes 0x80, 0x01, the
  reference is read as 1: the object is decoded with the first reader, \<open>parse\<close> returns 0
  and writes the tree.
\<close>

theorem parse_out_of_range_outcomes:
  "parse_object parsers readers fp \<noteq> Inr ((Some code, t, obj), fp')
   \<and> parse_object (\<lambda>_. None :: (unit option) reader option)
        [\<lparr>re_name = [0x41], re_version = 0\<rparr>] [2]
      = Inl IndexError
   \<and> parse (\<lambda>_. None :: (unit option) reader option) (\<lambda>_. True) False
        [0x58, 0x4E, 0x42, 0x77, 5, 0, 0, 0, 0, 0, 1, 1, 0x41, 0, 0, 0, 0, 0, 2]
      = (Not_written, Inl IndexError)
   \<and> parse (\<lambda>_. None :: (unit option) reader option) (\<lambda>_. True) False
        [0x58, 0x4E, 0x42, 0x77, 5, 0, 0, 0, 0, 0, 1, 1, 0x41, 0, 0, 0, 0, 0]
      = (Not_written, Inl IndexError)
   \<and> parse (\<lambda>_. None :: (unit option) reader option) (\<lambda>_. True) False
        [0x58, 0x4E, 0x42, 0x77, 5, 0, 0, 0, 0, 0, 1, 1, 0x41, 0, 0, 0, 0, 0, 0x80, 0x01]
      = (Written \<lparr>tree_primary = None, tree_shared = []\<rparr>, Inr 0)"
proof -
  have handler: "parse_object (\<lambda>_. None :: (unit option) reader option)
        [\<lparr>re_name = [0x41], re_version = 0\<rparr>] [2] = Inl IndexError"
    by (simp add: parse_object_def read_leb128_def reader_simps py_index_def)
  have raised: "parse (\<lambda>_. None :: (unit option) reader option) (\<lambda>_. True) False
        [0x58, 0x4E, 0x42, 0x77, 5, 0, 0, 0, 0, 0, 1, 1, 0x41, 0, 0, 0, 0, 0, 2]
      = (Not_written, Inl IndexError)"
    by (simp add: parse_def parse_reads_def parse_object_def read_reader_entry_def
        read_qualified_name_def reader_simps signed_le_def read_first_def py_index_def
        ascii_def read_leb128_def)
  have truncated: "parse (\<lambda>_. None :: (unit option) reader option) (\<lambda>_. True) False
        [0x58, 0x4E, 0x42, 0x77, 5, 0, 0, 0, 0, 0, 1, 1, 0x41, 0, 0, 0, 0, 0]
      = (Not_written, Inl IndexError)"
    by (simp add: parse_def parse_reads_def parse_object_def read_reader_entry_def
        read_qualified_name_def reader_simps signed_le_def read_first_def py_index_def
        ascii_def read_leb128_def)
  have accepted: "parse (\<lambda>_. None :: (unit option) reader option) (\<lambda>_. True) False
        [0x58, 0x4E, 0x42, 0x77, 5, 0, 0, 0, 0, 0, 1, 1, 0x41, 0, 0, 0, 0, 0, 0x80, 0x01]
      = (Written \<lparr>tree_primary = None, tree_shared = []\<rparr>, Inr 0)"
    by (simp add: parse_def parse_reads_def parse_object_def read_reader_entry_def
        read_qualified_name_def reader_simps signed_le_def read_first_def py_index_def
        ascii_def read_leb128_def ObjectReader_parse_def)
  show ?thesis
    using parse_object_never_returns_code handler raised truncated accepted by blast
qed

section \<open>The bone references of a model\<close>





















end
